theory Spec2Isabelle
  imports Main
begin

text \<open>
  SuperRest (index.js) wraps supertest: \<open>test\<close> builds one request from a verb, a
  path, a body and options, and registers \<open>expect\<close> as the assertion on its
  response; create, read, retrieve, update, patch, delete and destroy call \<open>test\<close>
  with a fixed verb. The embedding follows index.js function by function. A thrown
  error is the \<open>Inl\<close> of a result; the request that \<open>test\<close> returns is a
  descriptor of the supertest chain it built, and the assertions it carries run when
  a response is given to them.
\<close>

section \<open>JavaScript values used by index.js\<close>

text \<open>
  A regular expression object is known to index.js through two of its methods only:
  its rendering in a template literal (\<open>/source/flags\<close>) and whether
  \<open>str.match(re)\<close> finds a match (String.prototype.match hands the work to the
  pattern's own match method). The matching engine is the JavaScript runtime's, so
  it is a field of the object here.
\<close>

datatype regexp = RegExp (re_source: string) (re_flags: string) (re_matches: "string \<Rightarrow> bool")

text \<open>
  The values that options, bodies and instance fields can hold. Numbers are the
  integer-valued ones (HTTP status codes); an object literal is the map of its own
  properties.
\<close>

datatype jsval =
    JUndefined
  | JNull
  | JBool bool
  | JNum int
  | JStr string
  | JRegExp regexp
  | JObj "string \<Rightarrow> jsval option"

type_synonym obj = "string \<Rightarrow> jsval option"

text \<open>Property read \<open>o.k\<close>: a property that is not there reads as \<open>undefined\<close>.\<close>

definition get_prop :: "obj \<Rightarrow> string \<Rightarrow> jsval" where
  "get_prop ob k = (case ob k of None \<Rightarrow> JUndefined | Some v \<Rightarrow> v)"

text \<open>Truthiness, as tested by \<open>if (v)\<close>, \<open>!v\<close> and \<open>v || w\<close>.\<close>

fun truthy :: "jsval \<Rightarrow> bool" where
  "truthy JUndefined = False"
| "truthy JNull = False"
| "truthy (JBool b) = b"
| "truthy (JNum n) = (n \<noteq> 0)"
| "truthy (JStr s) = (s \<noteq> [])"
| "truthy (JRegExp r) = True"
| "truthy (JObj ob) = True"

text \<open>\<open>a || b\<close>\<close>

definition or_else :: "jsval \<Rightarrow> jsval \<Rightarrow> jsval" where
  "or_else a b = (if truthy a then a else b)"

text \<open>
  Strict equality \<open>a === b\<close>. Primitives compare by value. Objects compare by
  reference, which this value model does not carry; every use in index.js has a
  primitive on one side, and there an object on the other side gives \<open>false\<close>.
\<close>

fun strict_eq :: "jsval \<Rightarrow> jsval \<Rightarrow> bool" where
  "strict_eq JUndefined JUndefined = True"
| "strict_eq JNull JNull = True"
| "strict_eq (JBool a) (JBool b) = (a = b)"
| "strict_eq (JNum a) (JNum b) = (a = b)"
| "strict_eq (JStr a) (JStr b) = (a = b)"
| "strict_eq _ _ = False"

text \<open>Decimal rendering of an integer, as a template literal renders a status code.\<close>

fun digits :: "nat \<Rightarrow> string" where
  "digits n =
     (if n < 10 then [''0123456789'' ! n]
      else digits (n div 10) @ [''0123456789'' ! (n mod 10)])"

declare digits.simps [simp del]

definition Number_toString :: "int \<Rightarrow> string" where
  "Number_toString n = (if n < 0 then ''-'' @ digits (nat (- n)) else digits (nat n))"

definition RegExp_toString :: "regexp \<Rightarrow> string" where
  "RegExp_toString r = ''/'' @ re_source r @ ''/'' @ re_flags r"

text \<open>String conversion of a value inside a template literal \<open>${v}\<close>.\<close>

fun to_string :: "jsval \<Rightarrow> string" where
  "to_string JUndefined = ''undefined''"
| "to_string JNull = ''null''"
| "to_string (JBool b) = (if b then ''true'' else ''false'')"
| "to_string (JNum n) = Number_toString n"
| "to_string (JStr s) = s"
| "to_string (JRegExp r) = RegExp_toString r"
| "to_string (JObj ob) = ''[object Object]''"

text \<open>
  \<open>String.prototype.toLowerCase\<close>. A \<open>char\<close> is a code unit from 0 to 255; the
  capitals among them are A to Z and the Latin-1 capitals 0xC0 to 0xDE without the
  multiplication sign 0xD7, each 32 below its small letter.
\<close>

definition capitals :: string where
  "capitals = ''ABCDEFGHIJKLMNOPQRSTUVWXYZ''
     @ [CHR 0xC0, CHR 0xC1, CHR 0xC2, CHR 0xC3, CHR 0xC4, CHR 0xC5, CHR 0xC6, CHR 0xC7,
        CHR 0xC8, CHR 0xC9, CHR 0xCA, CHR 0xCB, CHR 0xCC, CHR 0xCD, CHR 0xCE, CHR 0xCF,
        CHR 0xD0, CHR 0xD1, CHR 0xD2, CHR 0xD3, CHR 0xD4, CHR 0xD5, CHR 0xD6,
        CHR 0xD8, CHR 0xD9, CHR 0xDA, CHR 0xDB, CHR 0xDC, CHR 0xDD, CHR 0xDE]"

definition small_letters :: string where
  "small_letters = ''abcdefghijklmnopqrstuvwxyz''
     @ [CHR 0xE0, CHR 0xE1, CHR 0xE2, CHR 0xE3, CHR 0xE4, CHR 0xE5, CHR 0xE6, CHR 0xE7,
        CHR 0xE8, CHR 0xE9, CHR 0xEA, CHR 0xEB, CHR 0xEC, CHR 0xED, CHR 0xEE, CHR 0xEF,
        CHR 0xF0, CHR 0xF1, CHR 0xF2, CHR 0xF3, CHR 0xF4, CHR 0xF5, CHR 0xF6,
        CHR 0xF8, CHR 0xF9, CHR 0xFA, CHR 0xFB, CHR 0xFC, CHR 0xFD, CHR 0xFE]"

definition toLowerCase_char :: "char \<Rightarrow> char" where
  "toLowerCase_char c =
     (case map_of (zip capitals small_letters) c of
        None \<Rightarrow> c
      | Some d \<Rightarrow> d)"

definition toLowerCase :: "string \<Rightarrow> string" where
  "toLowerCase s = map toLowerCase_char s"

text \<open>lodash's \<open>_.isString\<close> and \<open>_.isRegExp\<close>.\<close>

fun isString :: "jsval \<Rightarrow> bool" where
  "isString (JStr s) = True"
| "isString _ = False"

fun isRegExp :: "jsval \<Rightarrow> bool" where
  "isRegExp (JRegExp r) = True"
| "isRegExp _ = False"

text \<open>
  lodash's \<open>_.defaults(dest, ...sources)\<close>: each source in turn, skipping a missing
  one, fills the properties of the destination that still read as \<open>undefined\<close>.
\<close>

definition assign_defaults :: "obj \<Rightarrow> obj \<Rightarrow> obj" where
  "assign_defaults dest src =
     (\<lambda>k. case src k of
             None \<Rightarrow> dest k
           | Some v \<Rightarrow> if strict_eq (get_prop dest k) JUndefined then Some v else dest k)"

fun defaults :: "obj \<Rightarrow> obj option list \<Rightarrow> obj" where
  "defaults dest [] = dest"
| "defaults dest (None # srcs) = defaults dest srcs"
| "defaults dest (Some src # srcs) = defaults (assign_defaults dest src) srcs"


section \<open>The supertest collaborator\<close>

text \<open>A JavaScript \<open>Error\<close> with its message; \<open>TypeError\<close> is the runtime's own.\<close>

datatype error = Error string | TypeError string

text \<open>
  The response handed to the assertion callback: a numeric status and the headers,
  keyed by lower-cased name. \<open>res.get(field)\<close> is the header's value, or
  \<open>undefined\<close> when the response has no such header.
\<close>

record response =
  res_status :: int
  res_header :: "string \<Rightarrow> string option"

definition res_get :: "response \<Rightarrow> string \<Rightarrow> jsval" where
  "res_get res field =
     (case res_header res (toLowerCase field) of None \<Rightarrow> JUndefined | Some v \<Rightarrow> JStr v)"

text \<open>
  \<open>supertest(app)\<close> gives an agent, a plain object. What \<open>agent[name]\<close> is decides
  how \<open>test\<close> goes on:
  \<^item> not a function: \<open>typeof agent[name] != 'function'\<close>;
  \<^item> one of supertest's verb functions: \<open>agent[verb](path)\<close> starts a request, on
    which \<open>.send(body)\<close> attaches a body and \<open>.expect(callback)\<close> registers an
    assertion to run on the response; the chain is recorded as a request descriptor;
  \<^item> a function that is no verb, which a plain object inherits from
    \<open>Object.prototype\<close> (\<open>constructor\<close> is the one with a lower-case name):
    \<open>typeof\<close> says function all the same, and what the call gives
    (\<open>Object(path)\<close>, a String object) has no \<open>send\<close> and no \<open>expect\<close>.
\<close>

datatype member = NotFunction | VerbFunction | PlainFunction

type_synonym 'app supertest = "'app \<Rightarrow> string \<Rightarrow> member"

record 'app request =
  req_app :: 'app
  req_method :: string
  req_path :: string
  req_body :: "jsval option"
  req_asserts :: "(response \<Rightarrow> error + unit) list"

definition agent_call :: "'app \<Rightarrow> string \<Rightarrow> string \<Rightarrow> 'app request" where
  "agent_call a verb url =
     \<lparr>req_app = a, req_method = verb, req_path = url, req_body = None, req_asserts = []\<rparr>"

definition send :: "jsval \<Rightarrow> 'app request \<Rightarrow> 'app request" where
  "send b r = r\<lparr>req_body := Some b\<rparr>"

definition expect_callback :: "(response \<Rightarrow> error + unit) \<Rightarrow> 'app request \<Rightarrow> 'app request" where
  "expect_callback f r = r\<lparr>req_asserts := req_asserts r @ [f]\<rparr>"

text \<open>Awaiting the request: the registered assertions run in order on the response.\<close>

fun run_asserts :: "(response \<Rightarrow> error + unit) list \<Rightarrow> response \<Rightarrow> error + unit" where
  "run_asserts [] res = Inr ()"
| "run_asserts (f # fs) res = (case f res of Inl e \<Rightarrow> Inl e | Inr u \<Rightarrow> run_asserts fs res)"

text \<open>
  The agent as supertest makes it: a plain object with one function for each verb of
  the methods package and \<open>del\<close>; \<open>constructor\<close> comes from
  \<open>Object.prototype\<close>.
\<close>

definition verbs :: "string list" where
  "verbs =
     [''get'', ''post'', ''put'', ''head'', ''delete'', ''options'', ''trace'', ''copy'',
      ''lock'', ''mkcol'', ''move'', ''purge'', ''propfind'', ''proppatch'', ''unlock'',
      ''report'', ''mkactivity'', ''checkout'', ''merge'', ''m-search'', ''notify'',
      ''subscribe'', ''unsubscribe'', ''patch'', ''search'', ''connect'', ''del'']"

definition http_agent :: "'app supertest" where
  "http_agent a name =
     (if name \<in> set verbs then VerbFunction
      else if name = ''constructor'' then PlainFunction
      else NotFunction)"


section \<open>SuperRest\<close>

record 'app superrest =
  app :: 'app
  expectedContentType :: jsval
  pathPrefix :: jsval
  updateMethod :: jsval

text \<open>
  An options argument is an object or is left out; \<open>options = options || {}\<close>
  turns a missing one into the empty object.
\<close>

definition or_empty :: "obj option \<Rightarrow> obj" where
  "or_empty options = (case options of None \<Rightarrow> Map.empty | Some ob \<Rightarrow> ob)"

text \<open>The constructor.\<close>

definition SuperRest :: "'app \<Rightarrow> obj option \<Rightarrow> 'app superrest" where
  "SuperRest a options0 =
     (let options = or_empty options0 in
      \<lparr>app = a,
       expectedContentType = get_prop options ''expectedContentType'',
       pathPrefix = or_else (get_prop options ''pathPrefix'') (JStr ''''),
       updateMethod = or_else (get_prop options ''updateMethod'') (JStr ''PUT'')\<rparr>)"

text \<open>\<open>expect(res, options)\<close>: the status gate, then the content-type gates.\<close>

definition expect :: "'app superrest \<Rightarrow> response \<Rightarrow> obj \<Rightarrow> error + unit" where
  "expect self res options =
     (let expectedStatus =
            (if \<not> strict_eq (get_prop options ''expectedStatus'') JUndefined
             then get_prop options ''expectedStatus'' else JNum 200)
      in
      if \<not> strict_eq (JNum (res_status res)) expectedStatus then
        Inl (Error (''Expected HTTP status code '' @ to_string (JNum (res_status res))
                    @ '' to equal '' @ to_string expectedStatus))
      else
        let ect =
              (if \<not> strict_eq (get_prop options ''expectedContentType'') JUndefined
               then get_prop options ''expectedContentType'' else expectedContentType self)
        in
        if isString ect \<and> \<not> strict_eq (res_get res ''Content-Type'') ect then
          Inl (Error (''Expected HTTP Content-Type header \"''
                      @ to_string (res_get res ''Content-Type'')
                      @ ''\" to equal \"'' @ to_string ect @ ''\"''))
        else if isRegExp ect \<and> \<not> truthy (res_get res ''Content-Type'') then
          Inl (Error (''Expected missing HTTP Content-Type header to match '' @ to_string ect))
        else if isRegExp ect
                \<and> \<not> (case ect of JRegExp r \<Rightarrow> re_matches r (to_string (res_get res ''Content-Type''))
                                | _ \<Rightarrow> False) then
          Inl (Error (''Expected HTTP Content-Type header \"''
                      @ to_string (res_get res ''Content-Type'')
                      @ ''\" to match '' @ to_string ect))
        else Inr ())"

text \<open>
  \<open>test(method, path, body, options)\<close>. \<open>toLowerCase\<close> exists on strings only.
  The \<open>typeof\<close> check comes before \<open>agent[verb](path)\<close> is called; a function
  that is no verb passes it, and the chain then breaks at the first of \<open>.send\<close>
  and \<open>.expect\<close> that is called on its result.
\<close>

definition test ::
  "'app supertest \<Rightarrow> 'app superrest \<Rightarrow> jsval \<Rightarrow> string \<Rightarrow> jsval \<Rightarrow> obj option
     \<Rightarrow> error + 'app request" where
  "test supertest self method path body options0 =
     (let options = or_empty options0;
          agent = supertest (app self)
      in
      case or_else method (JStr ''GET'') of
        JStr m \<Rightarrow>
          (let testMethod = toLowerCase m in
           if agent testMethod = NotFunction then
             Inl (Error (''supertest has no \"'' @ testMethod @ ''\" function''))
           else
             let testPath =
                   (if truthy (get_prop options ''pathPrefix'') then
                      to_string (get_prop options ''pathPrefix'') @ path
                    else if truthy (pathPrefix self)
                            \<and> (strict_eq (get_prop options ''pathPrefix'') JUndefined
                               \<or> strict_eq (get_prop options ''pathPrefix'') (JBool True)) then
                      to_string (pathPrefix self) @ path
                    else path)
             in
             case agent testMethod of
               VerbFunction \<Rightarrow>
                 (let t1 = agent_call (app self) testMethod testPath;
                      t2 = (if truthy body then send body t1 else t1)
                  in Inr (expect_callback (\<lambda>res. expect self res options) t2))
             | _ \<Rightarrow>
                 if truthy body then Inl (TypeError ''test.send is not a function'')
                 else Inl (TypeError ''test.expect is not a function''))
      | _ \<Rightarrow> Inl (TypeError ''(method || \"GET\").toLowerCase is not a function''))"

text \<open>The CRUD aliases.\<close>

definition create ::
  "'app supertest \<Rightarrow> 'app superrest \<Rightarrow> string \<Rightarrow> jsval \<Rightarrow> obj option \<Rightarrow> error + 'app request" where
  "create supertest self path body options =
     test supertest self (JStr ''POST'') path body
       (Some (defaults Map.empty [options, Some [''expectedStatus'' \<mapsto> JNum 201]]))"

definition read ::
  "'app supertest \<Rightarrow> 'app superrest \<Rightarrow> string \<Rightarrow> obj option \<Rightarrow> error + 'app request" where
  "read supertest self path options = test supertest self (JStr ''GET'') path JUndefined options"

definition retrieve ::
  "'app supertest \<Rightarrow> 'app superrest \<Rightarrow> string \<Rightarrow> obj option \<Rightarrow> error + 'app request" where
  "retrieve supertest self path options = read supertest self path options"

definition update ::
  "'app supertest \<Rightarrow> 'app superrest \<Rightarrow> string \<Rightarrow> jsval \<Rightarrow> obj option \<Rightarrow> error + 'app request" where
  "update supertest self path body options0 =
     (let options = or_empty options0 in
      test supertest self (or_else (get_prop options ''method'') (updateMethod self)) path body
        (Some options))"

definition patch ::
  "'app supertest \<Rightarrow> 'app superrest \<Rightarrow> string \<Rightarrow> jsval \<Rightarrow> obj option \<Rightarrow> error + 'app request" where
  "patch supertest self path body options = test supertest self (JStr ''PATCH'') path body options"

definition delete ::
  "'app supertest \<Rightarrow> 'app superrest \<Rightarrow> string \<Rightarrow> jsval \<Rightarrow> obj option \<Rightarrow> error + 'app request" where
  "delete supertest self path body options = test supertest self (JStr ''DELETE'') path body options"

definition destroy ::
  "'app supertest \<Rightarrow> 'app superrest \<Rightarrow> string \<Rightarrow> jsval \<Rightarrow> obj option \<Rightarrow> error + 'app request" where
  "destroy supertest self path body options = delete supertest self path body options"


section \<open>Sample instances, options and responses\<close>

text \<open>Concrete inputs on which the theorems below are evaluated.\<close>

definition any_regexp :: regexp where
  "any_regexp = RegExp ''.*'' '''' (\<lambda>s. True)"

definition app_regexp :: regexp where
  "app_regexp = RegExp ''^application'' '''' (\<lambda>s. take 11 s = ''application'')"

definition plain_instance :: "unit superrest" where
  "plain_instance = SuperRest () None"

definition json_instance :: "unit superrest" where
  "json_instance = SuperRest () (Some [''expectedContentType'' \<mapsto> JStr ''application/json''])"

definition number_instance :: "unit superrest" where
  "number_instance = SuperRest () (Some [''expectedContentType'' \<mapsto> JNum 42])"

definition bool_instance :: "unit superrest" where
  "bool_instance = SuperRest () (Some [''expectedContentType'' \<mapsto> JBool True])"

definition any_regexp_instance :: "unit superrest" where
  "any_regexp_instance = SuperRest () (Some [''expectedContentType'' \<mapsto> JRegExp any_regexp])"

definition app_regexp_instance :: "unit superrest" where
  "app_regexp_instance = SuperRest () (Some [''expectedContentType'' \<mapsto> JRegExp app_regexp])"

definition api_instance :: "unit superrest" where
  "api_instance = SuperRest () (Some [''pathPrefix'' \<mapsto> JStr ''/api''])"

definition patch_instance :: "unit superrest" where
  "patch_instance = SuperRest () (Some [''updateMethod'' \<mapsto> JStr ''PATCH''])"

definition no_options :: obj where
  "no_options = Map.empty"


definition ok_json :: response where
  "ok_json = \<lparr>res_status = 200, res_header = [''content-type'' \<mapsto> ''application/json'']\<rparr>"

definition ok_html :: response where
  "ok_html = \<lparr>res_status = 200, res_header = [''content-type'' \<mapsto> ''text/html'']\<rparr>"

definition ok_untyped :: response where
  "ok_untyped = \<lparr>res_status = 200, res_header = Map.empty\<rparr>"

definition ok_empty_type :: response where
  "ok_empty_type = \<lparr>res_status = 200, res_header = [''content-type'' \<mapsto> '''']\<rparr>"

definition not_found_html :: response where
  "not_found_html = \<lparr>res_status = 404, res_header = [''content-type'' \<mapsto> ''text/html'']\<rparr>"


definition prefix_true_options :: obj where
  "prefix_true_options = [''pathPrefix'' \<mapsto> JBool True]"

definition prefix_false_options :: obj where
  "prefix_false_options = [''pathPrefix'' \<mapsto> JBool False]"

definition prefix_empty_options :: obj where
  "prefix_empty_options = [''pathPrefix'' \<mapsto> JStr []]"

definition status_200_options :: obj where
  "status_200_options = [''expectedStatus'' \<mapsto> JNum 200]"

definition method_post_options :: obj where
  "method_post_options = [''method'' \<mapsto> JStr ''POST'']"

definition foo_bar :: jsval where
  "foo_bar = JObj [''foo'' \<mapsto> JStr ''bar'']"

definition created :: response where
  "created = \<lparr>res_status = 201, res_header = [''content-type'' \<mapsto> ''application/json'']\<rparr>"


section \<open>Facts about the value operations\<close>

lemma strict_eq_undefined_iff: "strict_eq v JUndefined \<longleftrightarrow> v = JUndefined"
  by (cases v) simp_all

lemma strict_eq_num_iff: "strict_eq (JNum n) v \<longleftrightarrow> v = JNum n"
  by (cases v) auto

lemma strict_eq_str_iff: "strict_eq v (JStr s) \<longleftrightarrow> v = JStr s"
  by (cases v) auto

lemma strict_eq_true_iff: "strict_eq v (JBool True) \<longleftrightarrow> v = JBool True"
  by (cases v) auto

lemma or_undefined:
  "(if \<not> strict_eq p JUndefined then p else d) = (if p = JUndefined then d else p)"
  by (simp add: strict_eq_undefined_iff)

lemma lower_Content_Type: "toLowerCase ''Content-Type'' = ''content-type''"
  by (simp add: toLowerCase_def toLowerCase_char_def capitals_def small_letters_def)

lemma res_get_Content_Type:
  "res_get res ''Content-Type'' =
     (case res_header res ''content-type'' of None \<Rightarrow> JUndefined | Some v \<Rightarrow> JStr v)"
  unfolding res_get_def lower_Content_Type by (rule refl)

lemmas ctor_eval = SuperRest_def or_empty_def get_prop_def or_else_def


section \<open>The gates of expect\<close>

lemma expect_status_mismatch:
  assumes "es = (if get_prop options ''expectedStatus'' = JUndefined then JNum 200
                 else get_prop options ''expectedStatus'')"
    and "JNum (res_status res) \<noteq> es"
  shows "expect self res options =
           Inl (Error (''Expected HTTP status code '' @ Number_toString (res_status res)
                       @ '' to equal '' @ to_string es))"
proof -
  have "\<not> strict_eq (JNum (res_status res)) es"
    using assms(2) by (simp only: strict_eq_num_iff) metis
  then show ?thesis
    unfolding expect_def Let_def or_undefined assms(1) [symmetric]
    by (simp only: not_False_eq_True if_True to_string.simps)
qed

lemma expect_status_ok:
  assumes "es = (if get_prop options ''expectedStatus'' = JUndefined then JNum 200
                 else get_prop options ''expectedStatus'')"
    and "JNum (res_status res) = es"
    and "ect = (if get_prop options ''expectedContentType'' = JUndefined
                then expectedContentType self else get_prop options ''expectedContentType'')"
    and "h = res_get res ''Content-Type''"
  shows "expect self res options =
          (if isString ect \<and> \<not> strict_eq h ect then
             Inl (Error (''Expected HTTP Content-Type header \"'' @ to_string h
                         @ ''\" to equal \"'' @ to_string ect @ ''\"''))
           else if isRegExp ect \<and> \<not> truthy h then
             Inl (Error (''Expected missing HTTP Content-Type header to match '' @ to_string ect))
           else if isRegExp ect
                   \<and> \<not> (case ect of JRegExp r \<Rightarrow> re_matches r (to_string h) | _ \<Rightarrow> False) then
             Inl (Error (''Expected HTTP Content-Type header \"'' @ to_string h
                         @ ''\" to match '' @ to_string ect))
           else Inr ())"
proof -
  have "strict_eq (JNum (res_status res)) es"
    unfolding strict_eq_num_iff using assms(2) by (rule sym)
  then show ?thesis
    unfolding expect_def Let_def or_undefined assms(1) [symmetric] assms(3) [symmetric]
      assms(4) [symmetric]
    by (simp only: not_True_eq_False if_False simp_thms)
qed


lemma expect_string:
  assumes "JNum (res_status res)
             = (if get_prop options ''expectedStatus'' = JUndefined then JNum 200
                else get_prop options ''expectedStatus'')"
    and "(if get_prop options ''expectedContentType'' = JUndefined
          then expectedContentType self else get_prop options ''expectedContentType'') = JStr s"
  shows "expect self res options =
          (case res_header res ''content-type'' of
             None \<Rightarrow>
               Inl (Error (''Expected HTTP Content-Type header \"undefined\" to equal \"''
                           @ s @ ''\"''))
           | Some a \<Rightarrow>
               if a = s then Inr ()
               else Inl (Error (''Expected HTTP Content-Type header \"'' @ a
                                @ ''\" to equal \"'' @ s @ ''\"'')))"
proof -
  note e = expect_status_ok [OF refl assms(1) assms(2) [symmetric] refl]
  show ?thesis
  proof (cases "res_header res ''content-type''")
    case None
    then have h: "res_get res ''Content-Type'' = JUndefined"
      by (simp add: res_get_Content_Type)
    show ?thesis unfolding e h None by simp
  next
    case (Some a)
    then have h: "res_get res ''Content-Type'' = JStr a"
      by (simp add: res_get_Content_Type)
    show ?thesis unfolding e h Some by simp
  qed
qed

lemma expect_regexp:
  assumes "JNum (res_status res)
             = (if get_prop options ''expectedStatus'' = JUndefined then JNum 200
                else get_prop options ''expectedStatus'')"
    and "(if get_prop options ''expectedContentType'' = JUndefined
          then expectedContentType self else get_prop options ''expectedContentType'') = JRegExp r"
  shows "expect self res options =
          (case res_header res ''content-type'' of
             None \<Rightarrow>
               Inl (Error (''Expected missing HTTP Content-Type header to match ''
                           @ RegExp_toString r))
           | Some a \<Rightarrow>
               if a = [] then
                 Inl (Error (''Expected missing HTTP Content-Type header to match ''
                             @ RegExp_toString r))
               else if re_matches r a then Inr ()
               else Inl (Error (''Expected HTTP Content-Type header \"'' @ a
                                @ ''\" to match '' @ RegExp_toString r)))"
proof -
  note e = expect_status_ok [OF refl assms(1) assms(2) [symmetric] refl]
  show ?thesis
  proof (cases "res_header res ''content-type''")
    case None
    then have h: "res_get res ''Content-Type'' = JUndefined"
      by (simp add: res_get_Content_Type)
    show ?thesis unfolding e h None by simp
  next
    case (Some a)
    then have h: "res_get res ''Content-Type'' = JStr a"
      by (simp add: res_get_Content_Type)
    show ?thesis unfolding e h Some by simp
  qed
qed

lemma expect_unchecked:
  assumes "JNum (res_status res)
             = (if get_prop options ''expectedStatus'' = JUndefined then JNum 200
                else get_prop options ''expectedStatus'')"
    and "(if get_prop options ''expectedContentType'' = JUndefined
          then expectedContentType self else get_prop options ''expectedContentType'') = v"
    and "\<not> isString v" and "\<not> isRegExp v"
  shows "expect self res options = Inr ()"
  unfolding expect_status_ok [OF refl assms(1) assms(2) [symmetric] refl]
  using assms(3,4) by simp


section \<open>The claims about expect\<close>

text \<open>
  C5. For every instance, response and options, expect resolves the expected status as
  \<open>options.expectedStatus\<close> when it is there (not \<open>undefined\<close>) and as 200
  otherwise. When the response status differs from it, the result is the error
  \<open>Expected HTTP status code <actual> to equal <expected>\<close>, whatever the
  Content-Type header and the content-type expectation are: the status gate comes
  first.
\<close>

theorem expect_status_gate_first:
  assumes "expected = (if get_prop options ''expectedStatus'' = JUndefined then JNum 200
                       else get_prop options ''expectedStatus'')"
    and "JNum (res_status res) \<noteq> expected"
  shows "expect self res options =
           Inl (Error (''Expected HTTP status code '' @ Number_toString (res_status res)
                       @ '' to equal '' @ to_string expected))"
  using assms by (rule expect_status_mismatch)

text \<open>
  A 404 response of type text/html, on an instance that expects application/json:
  both gates would fail, and the status error is the one raised.
\<close>

theorem expect_status_gate_first_witness:
  "JNum 200 = (if get_prop no_options ''expectedStatus'' = JUndefined then JNum 200
               else get_prop no_options ''expectedStatus'')
   \<and> JNum (res_status not_found_html) \<noteq> JNum 200
   \<and> expect json_instance not_found_html no_options
      = Inl (Error ''Expected HTTP status code 404 to equal 200'')"
proof -
  have h1: "JNum 200 = (if get_prop no_options ''expectedStatus'' = JUndefined then JNum 200
               else get_prop no_options ''expectedStatus'')"
    by (simp add: ctor_eval no_options_def not_found_html_def json_instance_def)
  have h2: "JNum (res_status not_found_html) \<noteq> JNum 200"
    by (simp add: ctor_eval no_options_def not_found_html_def json_instance_def)
  show ?thesis
    using h1 h2 expect_status_gate_first [OF h1 h2, of json_instance]
    by (simp add: ctor_eval no_options_def not_found_html_def json_instance_def Number_toString_def digits.simps)
qed



text \<open>
  C3, as the code has it. With a string expectation \<open>s\<close> (per call, or the
  instance's when the call gives none) and a status that passes, expect requires the
  Content-Type header to be exactly \<open>s\<close>; otherwise it raises
  \<open>Expected HTTP Content-Type header "<actual>" to equal "<s>"\<close>. A missing header
  is \<open>undefined\<close>, not the empty string: it equals no string expectation, the
  empty one included, and the message shows it as the word undefined.
\<close>

theorem expect_string_content_type:
  assumes "JNum (res_status res)
             = (if get_prop options ''expectedStatus'' = JUndefined then JNum 200
                else get_prop options ''expectedStatus'')"
    and "(if get_prop options ''expectedContentType'' = JUndefined
          then expectedContentType self else get_prop options ''expectedContentType'') = JStr s"
  shows "expect self res options =
          (case res_header res ''content-type'' of
             None \<Rightarrow>
               Inl (Error (''Expected HTTP Content-Type header \"undefined\" to equal \"''
                           @ s @ ''\"''))
           | Some c \<Rightarrow>
               if c = s then Inr ()
               else Inl (Error (''Expected HTTP Content-Type header \"'' @ c
                                @ ''\" to equal \"'' @ s @ ''\"'')))"
  using assms by (rule expect_string)

text \<open>An instance that expects application/json, given a text/html response.\<close>

theorem expect_string_content_type_witness:
  "JNum (res_status ok_html)
     = (if get_prop no_options ''expectedStatus'' = JUndefined then JNum 200
        else get_prop no_options ''expectedStatus'')
   \<and> (if get_prop no_options ''expectedContentType'' = JUndefined
       then expectedContentType json_instance else get_prop no_options ''expectedContentType'')
     = JStr ''application/json''
   \<and> expect json_instance ok_html no_options
     = Inl (Error ''Expected HTTP Content-Type header \"text/html\" to equal \"application/json\"'')"
proof -
  have h1: "JNum (res_status ok_html)
     = (if get_prop no_options ''expectedStatus'' = JUndefined then JNum 200
        else get_prop no_options ''expectedStatus'')"
    by (simp add: ctor_eval no_options_def json_instance_def ok_html_def)
  have h2: "(if get_prop no_options ''expectedContentType'' = JUndefined
       then expectedContentType json_instance else get_prop no_options ''expectedContentType'')
     = JStr ''application/json''"
    by (simp add: ctor_eval no_options_def json_instance_def ok_html_def)
  have "expect json_instance ok_html no_options
     = Inl (Error ''Expected HTTP Content-Type header \"text/html\" to equal \"application/json\"'')"
    unfolding expect_string_content_type [OF h1 h2] by (simp add: ctor_eval no_options_def json_instance_def ok_html_def)
  with h1 h2 show ?thesis by (simp only: simp_thms)
qed

text \<open>
  C3 as stated fails on a response without a Content-Type header: the message embeds
  the word undefined, not an empty string.
\<close>

theorem expect_missing_header_not_empty_string:
  "expect json_instance ok_untyped no_options
     = Inl (Error ''Expected HTTP Content-Type header \"undefined\" to equal \"application/json\"'')
   \<and> expect json_instance ok_untyped no_options
     \<noteq> Inl (Error ''Expected HTTP Content-Type header \"\" to equal \"application/json\"'')"
proof -
  have "expect json_instance ok_untyped no_options
     = Inl (Error ''Expected HTTP Content-Type header \"undefined\" to equal \"application/json\"'')"
    by (subst expect_string [where s = "''application/json''"]) (simp_all add: ctor_eval json_instance_def ok_untyped_def no_options_def)
  then show ?thesis by simp
qed

text \<open>
  C2, as the code has it. An instance constructed with an \<open>expectedContentType\<close>
  that is neither a string nor a pattern (a number, a boolean) makes no content-type
  check: when the call gives no expectation of its own and the status passes, expect
  raises nothing, whatever the Content-Type header.
\<close>

theorem expect_ignores_malformed_content_type:
  assumes "self = SuperRest a copts"
    and "get_prop (or_empty copts) ''expectedContentType'' = v"
    and "\<not> isString v" and "\<not> isRegExp v"
    and "get_prop options ''expectedContentType'' = JUndefined"
    and "JNum (res_status res)
           = (if get_prop options ''expectedStatus'' = JUndefined then JNum 200
              else get_prop options ''expectedStatus'')"
  shows "expect self res options = Inr ()"
proof -
  have "expectedContentType self = v"
    using assms(1,2) by (simp add: SuperRest_def Let_def)
  then have "(if get_prop options ''expectedContentType'' = JUndefined
          then expectedContentType self else get_prop options ''expectedContentType'') = v"
    using assms(5) by simp
  from expect_unchecked [OF assms(6) this assms(3,4)] show ?thesis .
qed

text \<open>An instance constructed with the boolean true, given a text/html response.\<close>

theorem expect_ignores_malformed_content_type_witness:
  "bool_instance = SuperRest () (Some [''expectedContentType'' \<mapsto> JBool True])
   \<and> get_prop (or_empty (Some [''expectedContentType'' \<mapsto> JBool True])) ''expectedContentType''
       = JBool True
   \<and> \<not> isString (JBool True) \<and> \<not> isRegExp (JBool True)
   \<and> get_prop no_options ''expectedContentType'' = JUndefined
   \<and> JNum (res_status ok_html)
       = (if get_prop no_options ''expectedStatus'' = JUndefined then JNum 200
          else get_prop no_options ''expectedStatus'')
   \<and> expect bool_instance ok_html no_options = Inr ()"
proof -
  have h1: "bool_instance = SuperRest () (Some [''expectedContentType'' \<mapsto> JBool True])"
    by (rule bool_instance_def)
  have h2: "get_prop (or_empty (Some [''expectedContentType'' \<mapsto> JBool True]))
              ''expectedContentType'' = JBool True"
    by (simp add: ctor_eval bool_instance_def no_options_def ok_html_def)
  have h3: "\<not> isString (JBool True)" and h4: "\<not> isRegExp (JBool True)"
    by simp_all
  have h5: "get_prop no_options ''expectedContentType'' = JUndefined"
    by (simp add: ctor_eval bool_instance_def no_options_def ok_html_def)
  have h6: "JNum (res_status ok_html)
       = (if get_prop no_options ''expectedStatus'' = JUndefined then JNum 200
          else get_prop no_options ''expectedStatus'')"
    by (simp add: ctor_eval bool_instance_def no_options_def ok_html_def)
  from expect_ignores_malformed_content_type [OF h1 h2 h3 h4 h5 h6] h1 h2 h3 h4 h5 h6
  show ?thesis by (simp only: simp_thms)
qed

text \<open>
  C2 as stated fails: an instance constructed with the number 42 accepts a text/html
  response; no error is raised.
\<close>

theorem expect_number_content_type_passes:
  "expect number_instance ok_html no_options = Inr ()"
  by (rule expect_unchecked [where v = "JNum 42"]) (simp_all add: ctor_eval number_instance_def ok_html_def no_options_def)

text \<open>
  C7, as the code has it. With a pattern expectation and a status that passes: a
  Content-Type header that is missing or empty raises
  \<open>Expected missing HTTP Content-Type header to match <pattern>\<close>; a non-empty one
  that the pattern does not match raises
  \<open>Expected HTTP Content-Type header "<actual>" to match <pattern>\<close>; a non-empty
  one that it matches raises nothing.
\<close>

theorem expect_regexp_content_type:
  assumes "JNum (res_status res)
             = (if get_prop options ''expectedStatus'' = JUndefined then JNum 200
                else get_prop options ''expectedStatus'')"
    and "(if get_prop options ''expectedContentType'' = JUndefined
          then expectedContentType self else get_prop options ''expectedContentType'') = JRegExp r"
  shows "expect self res options =
          (case res_header res ''content-type'' of
             None \<Rightarrow>
               Inl (Error (''Expected missing HTTP Content-Type header to match ''
                           @ RegExp_toString r))
           | Some c \<Rightarrow>
               if c = [] then
                 Inl (Error (''Expected missing HTTP Content-Type header to match ''
                             @ RegExp_toString r))
               else if re_matches r c then Inr ()
               else Inl (Error (''Expected HTTP Content-Type header \"'' @ c
                                @ ''\" to match '' @ RegExp_toString r)))"
  using assms by (rule expect_regexp)

text \<open>
  An instance that expects \<open>/^application/\<close>: a text/html response fails, an
  application/json response passes, a response without the header is reported missing.
\<close>

theorem expect_regexp_content_type_witness:
  "JNum 200
     = (if get_prop no_options ''expectedStatus'' = JUndefined then JNum 200
        else get_prop no_options ''expectedStatus'')
   \<and> (if get_prop no_options ''expectedContentType'' = JUndefined
       then expectedContentType app_regexp_instance
       else get_prop no_options ''expectedContentType'') = JRegExp app_regexp
   \<and> expect app_regexp_instance ok_html no_options
     = Inl (Error ''Expected HTTP Content-Type header \"text/html\" to match /^application/'')
   \<and> expect app_regexp_instance ok_json no_options = Inr ()
   \<and> expect app_regexp_instance ok_untyped no_options
     = Inl (Error ''Expected missing HTTP Content-Type header to match /^application/'')"
proof -
  have h1: "JNum (res_status res)
     = (if get_prop no_options ''expectedStatus'' = JUndefined then JNum 200
        else get_prop no_options ''expectedStatus'')"
    if "res_status res = 200" for res
    using that by (simp add: ctor_eval app_regexp_def app_regexp_instance_def no_options_def
        ok_html_def ok_json_def ok_untyped_def)
  have h2: "(if get_prop no_options ''expectedContentType'' = JUndefined
       then expectedContentType app_regexp_instance
       else get_prop no_options ''expectedContentType'') = JRegExp app_regexp"
    by (simp add: ctor_eval app_regexp_def app_regexp_instance_def no_options_def
        ok_html_def ok_json_def ok_untyped_def)
  have s: "res_status ok_html = 200" "res_status ok_json = 200" "res_status ok_untyped = 200"
    by (simp_all add: ctor_eval app_regexp_def app_regexp_instance_def no_options_def
        ok_html_def ok_json_def ok_untyped_def)
  have c1: "expect app_regexp_instance ok_html no_options
     = Inl (Error ''Expected HTTP Content-Type header \"text/html\" to match /^application/'')"
    unfolding expect_regexp_content_type [OF h1 [OF s(1)] h2]
    by (simp add: ctor_eval app_regexp_def app_regexp_instance_def no_options_def
        ok_html_def ok_json_def ok_untyped_def RegExp_toString_def)
  have c2: "expect app_regexp_instance ok_json no_options = Inr ()"
    unfolding expect_regexp_content_type [OF h1 [OF s(2)] h2]
    by (simp add: ctor_eval app_regexp_def app_regexp_instance_def no_options_def
        ok_html_def ok_json_def ok_untyped_def RegExp_toString_def)
  have c3: "expect app_regexp_instance ok_untyped no_options
     = Inl (Error ''Expected missing HTTP Content-Type header to match /^application/'')"
    unfolding expect_regexp_content_type [OF h1 [OF s(3)] h2]
    by (simp add: ctor_eval app_regexp_def app_regexp_instance_def no_options_def
        ok_html_def ok_json_def ok_untyped_def RegExp_toString_def)
  from c1 c2 c3 h1 [OF s(1)] h2 s(1) show ?thesis by (simp only: simp_thms)
qed

text \<open>
  C7 as stated fails on a header that is there with an empty value: the pattern
  \<open>/.*/\<close> matches it, and expect still reports the header missing.
\<close>

theorem expect_empty_header_reported_missing:
  "res_header ok_empty_type ''content-type'' = Some ''''
   \<and> re_matches any_regexp ''''
   \<and> expect any_regexp_instance ok_empty_type no_options
       = Inl (Error ''Expected missing HTTP Content-Type header to match /.*/'')"
proof -
  have "expect any_regexp_instance ok_empty_type no_options
       = Inl (Error ''Expected missing HTTP Content-Type header to match /.*/'')"
    by (subst expect_regexp [where r = any_regexp]) (simp_all add: ctor_eval any_regexp_def any_regexp_instance_def ok_empty_type_def
        no_options_def RegExp_toString_def)
  then show ?thesis by (simp add: ctor_eval any_regexp_def any_regexp_instance_def ok_empty_type_def
        no_options_def)
qed

section \<open>The request built by test\<close>

lemma SuperRest_sel:
  "app (SuperRest a copts) = a"
  "expectedContentType (SuperRest a copts) = get_prop (or_empty copts) ''expectedContentType''"
  "pathPrefix (SuperRest a copts) = or_else (get_prop (or_empty copts) ''pathPrefix'') (JStr '''')"
  "updateMethod (SuperRest a copts)
     = or_else (get_prop (or_empty copts) ''updateMethod'') (JStr ''PUT'')"
  by (simp_all add: SuperRest_def Let_def)

lemma test_unsupported:
  assumes "or_else method (JStr ''GET'') = JStr m"
    and "supertest (app self) (toLowerCase m) = NotFunction"
  shows "test supertest self method path body options
           = Inl (Error (''supertest has no \"'' @ toLowerCase m @ ''\" function''))"
  unfolding test_def Let_def assms(1) using assms(2) by simp

lemma test_plain_function:
  assumes "or_else method (JStr ''GET'') = JStr m"
    and "supertest (app self) (toLowerCase m) = PlainFunction"
  shows "test supertest self method path body options
           = (if truthy body then Inl (TypeError ''test.send is not a function'')
              else Inl (TypeError ''test.expect is not a function''))"
  unfolding test_def Let_def assms(1) using assms(2) by simp

lemma test_supported:
  assumes "or_else method (JStr ''GET'') = JStr m"
    and "supertest (app self) (toLowerCase m) = VerbFunction"
  shows "test supertest self method path body options
           = Inr \<lparr>req_app = app self,
                  req_method = toLowerCase m,
                  req_path =
                    (if truthy (get_prop (or_empty options) ''pathPrefix'') then
                       to_string (get_prop (or_empty options) ''pathPrefix'') @ path
                     else if truthy (pathPrefix self)
                             \<and> (get_prop (or_empty options) ''pathPrefix'' = JUndefined
                                \<or> get_prop (or_empty options) ''pathPrefix'' = JBool True) then
                       to_string (pathPrefix self) @ path
                     else path),
                  req_body = (if truthy body then Some body else None),
                  req_asserts = [\<lambda>res. expect self res (or_empty options)]\<rparr>"
  unfolding test_def Let_def assms(1) strict_eq_undefined_iff strict_eq_true_iff
  using assms(2) by (simp add: agent_call_def send_def expect_callback_def)

lemma test_not_string:
  assumes "\<not> isString (or_else method (JStr ''GET''))"
  shows "test supertest self method path body options
           = Inl (TypeError ''(method || \"GET\").toLowerCase is not a function'')"
  using assms unfolding test_def Let_def
  by (cases "or_else method (JStr ''GET'')") simp_all

lemma lower_verbs:
  "toLowerCase ''GET'' = ''get''" "toLowerCase ''POST'' = ''post''"
  "toLowerCase ''PUT'' = ''put''" "toLowerCase ''PATCH'' = ''patch''"
  "toLowerCase ''DELETE'' = ''delete''" "toLowerCase ''UNKNOWN'' = ''unknown''"
  "toLowerCase ''constructor'' = ''constructor''"
  by (simp_all add: toLowerCase_def toLowerCase_char_def capitals_def small_letters_def)

section \<open>The claims about test\<close>

text \<open>
  C4, at the input where the code departs from it. The verb is resolved as
  \<open>(method || 'GET').toLowerCase()\<close> and a name that is no function of the agent
  is refused before anything is called, with the error that names it:
  \<open>test('UNKNOWN', '/test', {foo: 'bar'})\<close> throws
  \<open>supertest has no "unknown" function\<close>. The check is \<open>typeof agent[verb]\<close>,
  though, and the agent is a plain object: \<open>constructor\<close> is no verb of supertest
  and passes the check. \<open>test('constructor', '/test')\<close> calls
  \<open>agent.constructor('/test')\<close> and fails on the result with a TypeError that
  does not name the verb.
\<close>

theorem test_constructor_passes_the_verb_check:
  "http_agent (app plain_instance) ''constructor'' = PlainFunction
   \<and> test http_agent plain_instance (JStr ''constructor'') ''/test'' JUndefined None
       = Inl (TypeError ''test.expect is not a function'')
   \<and> test http_agent plain_instance (JStr ''UNKNOWN'') ''/test'' foo_bar None
       = Inl (Error ''supertest has no \"unknown\" function'')"
proof -
  have c: "http_agent (app plain_instance) (toLowerCase ''constructor'') = PlainFunction"
    and u: "http_agent (app plain_instance) (toLowerCase ''UNKNOWN'') = NotFunction"
    by (simp_all add: http_agent_def verbs_def lower_verbs)
  have m: "or_else (JStr ''constructor'') (JStr ''GET'') = JStr ''constructor''"
    "or_else (JStr ''UNKNOWN'') (JStr ''GET'') = JStr ''UNKNOWN''"
    by (simp_all add: or_else_def)
  have c1: "test http_agent plain_instance (JStr ''constructor'') ''/test'' JUndefined None
       = Inl (TypeError ''test.expect is not a function'')"
    unfolding test_plain_function
      [where supertest = http_agent and self = plain_instance, OF m(1) c]
    by simp
  have c2: "test http_agent plain_instance (JStr ''UNKNOWN'') ''/test'' foo_bar None
       = Inl (Error ''supertest has no \"unknown\" function'')"
    unfolding test_unsupported
      [where supertest = http_agent and self = plain_instance, OF m(2) u]
    by (simp add: lower_verbs)
  from c c1 c2 show ?thesis by (simp only: lower_verbs simp_thms)
qed

text \<open>
  C1, at the input where the code departs from it. The instance has the prefix
  \<open>/api\<close> and the call gives \<open>pathPrefix: true\<close>. The first branch of the path
  resolution tests \<open>options.pathPrefix\<close> for truthiness, \<open>true\<close> passes it, and
  the value itself is prepended: the request goes to \<open>true/test\<close>. The second
  branch, which names \<open>options.pathPrefix === true\<close> and would prepend the instance
  prefix, is never reached with \<open>true\<close>.
\<close>

theorem test_pathPrefix_true_prepends_the_word_true:
  "map_sum id req_path
     (test http_agent api_instance (JStr ''GET'') ''/test'' JUndefined (Some prefix_true_options))
   = Inr ''true/test''"
proof -
  have m: "or_else (JStr ''GET'') (JStr ''GET'') = JStr ''GET''"
    by (simp add: or_else_def)
  have g: "http_agent (app api_instance) (toLowerCase ''GET'') = VerbFunction"
    by (simp add: http_agent_def verbs_def lower_verbs)
  show ?thesis
    unfolding test_supported [where supertest = http_agent and self = api_instance, OF m g]
    by (simp add: ctor_eval api_instance_def prefix_true_options_def)
qed

text \<open>
  C10. The instance is constructed with a non-empty prefix \<open>p\<close>, and the verb is
  one the agent has. A per-call \<open>pathPrefix\<close> that is the empty string sends the
  request to the path as given, as \<open>false\<close> does; an absent one sends it to
  \<open>p\<close> followed by the path.
\<close>

theorem test_empty_pathPrefix_disables_prefix:
  assumes "self = SuperRest a copts"
    and "get_prop (or_empty copts) ''pathPrefix'' = JStr p" and "p \<noteq> []"
    and "or_else method (JStr ''GET'') = JStr m"
    and "supertest a (toLowerCase m) = VerbFunction"
  shows "(get_prop (or_empty options) ''pathPrefix'' = JStr [] \<longrightarrow>
            (\<exists>r. test supertest self method path body options = Inr r \<and> req_path r = path))
       \<and> (get_prop (or_empty options) ''pathPrefix'' = JBool False \<longrightarrow>
            (\<exists>r. test supertest self method path body options = Inr r \<and> req_path r = path))
       \<and> (get_prop (or_empty options) ''pathPrefix'' = JUndefined \<longrightarrow>
            (\<exists>r. test supertest self method path body options = Inr r
                 \<and> req_path r = p @ path))"
proof -
  have pp: "pathPrefix self = JStr p"
    using assms(1,2,3) by (simp add: SuperRest_sel or_else_def)
  have ag: "supertest (app self) (toLowerCase m) = VerbFunction"
    using assms(1,5) by (simp add: SuperRest_sel)
  show ?thesis
    unfolding test_supported [where supertest = supertest and self = self, OF assms(4) ag]
    using pp assms(3) by simp
qed

text \<open>The instance with prefix \<open>/api\<close>, on the path \<open>/test\<close>.\<close>

theorem test_empty_pathPrefix_disables_prefix_witness:
  "api_instance = SuperRest () (Some [''pathPrefix'' \<mapsto> JStr ''/api''])
   \<and> get_prop (or_empty (Some [''pathPrefix'' \<mapsto> JStr ''/api''])) ''pathPrefix'' = JStr ''/api''
   \<and> ''/api'' \<noteq> []
   \<and> or_else (JStr ''GET'') (JStr ''GET'') = JStr ''GET''
   \<and> http_agent () (toLowerCase ''GET'') = VerbFunction
   \<and> get_prop (or_empty (Some prefix_empty_options)) ''pathPrefix'' = JStr []
   \<and> (\<exists>r. test http_agent api_instance (JStr ''GET'') ''/test'' JUndefined
              (Some prefix_empty_options) = Inr r \<and> req_path r = ''/test'')
   \<and> get_prop (or_empty (Some prefix_false_options)) ''pathPrefix'' = JBool False
   \<and> (\<exists>r. test http_agent api_instance (JStr ''GET'') ''/test'' JUndefined
              (Some prefix_false_options) = Inr r \<and> req_path r = ''/test'')
   \<and> get_prop (or_empty None) ''pathPrefix'' = JUndefined
   \<and> (\<exists>r. test http_agent api_instance (JStr ''GET'') ''/test'' JUndefined None = Inr r
          \<and> req_path r = ''/api/test'')"
proof -
  have h1: "api_instance = SuperRest () (Some [''pathPrefix'' \<mapsto> JStr ''/api''])"
    by (rule api_instance_def)
  have h2: "get_prop (or_empty (Some [''pathPrefix'' \<mapsto> JStr ''/api''])) ''pathPrefix''
              = JStr ''/api''"
    by (simp add: ctor_eval prefix_empty_options_def prefix_false_options_def)
  have h3: "''/api'' \<noteq> []" by simp
  have h4: "or_else (JStr ''GET'') (JStr ''GET'') = JStr ''GET''"
    by (simp add: or_else_def)
  have h5: "http_agent () (toLowerCase ''GET'') = VerbFunction"
    by (simp add: http_agent_def verbs_def lower_verbs)
  have e: "get_prop (or_empty (Some prefix_empty_options)) ''pathPrefix'' = JStr []"
    and f: "get_prop (or_empty (Some prefix_false_options)) ''pathPrefix'' = JBool False"
    and n: "get_prop (or_empty None) ''pathPrefix'' = JUndefined"
    by (simp_all add: ctor_eval prefix_empty_options_def prefix_false_options_def)
  note T = test_empty_pathPrefix_disables_prefix
      [where supertest = http_agent and a = "()", OF h1 h2 h3 h4 h5]
  have c1: "\<exists>r. test http_agent api_instance (JStr ''GET'') ''/test'' JUndefined
              (Some prefix_empty_options) = Inr r \<and> req_path r = ''/test''"
    using conjunct1 [OF T, of "Some prefix_empty_options"] e by simp
  have c2: "\<exists>r. test http_agent api_instance (JStr ''GET'') ''/test'' JUndefined
              (Some prefix_false_options) = Inr r \<and> req_path r = ''/test''"
    using conjunct1 [OF conjunct2 [OF T], of "Some prefix_false_options"] f by simp
  have c3: "\<exists>r. test http_agent api_instance (JStr ''GET'') ''/test'' JUndefined None = Inr r
          \<and> req_path r = ''/api/test''"
    using conjunct2 [OF conjunct2 [OF T], of None "''/test''" JUndefined] n by simp
  from h1 h2 h3 h4 h5 e f n c1 c2 c3 show ?thesis by (simp only: simp_thms)
qed

lemma get_prop_create_options:
  "get_prop (defaults Map.empty [options, Some [''expectedStatus'' \<mapsto> JNum 201]]) k
     = (if k = ''expectedStatus'' \<and> get_prop (or_empty options) k = JUndefined then JNum 201
        else get_prop (or_empty options) k)"
  by (cases options)
     (auto simp: assign_defaults_def get_prop_def or_empty_def strict_eq_undefined_iff
           split: option.splits)

lemma or_else_nonempty: "m \<noteq> [] \<Longrightarrow> or_else (JStr m) d = JStr m"
  by (simp add: or_else_def)

lemma or_empty_simps: "or_empty None = Map.empty" "or_empty (Some ob) = ob"
  by (simp_all add: or_empty_def)

lemma run_single_assert: "run_asserts [f] res = f res"
  by (cases "f res") simp_all

section \<open>The claims about the aliases\<close>

text \<open>
  C8. On an agent that has the verb: create builds a POST request whose assertion is
  expect with the caller's options, except that \<open>expectedStatus\<close> is 201 when the
  caller gave none; a value the caller gave stays. The other aliases build their
  request with the caller's options as they are, so an \<open>expectedStatus\<close> the caller
  did not give stays unset and expect takes 200 for it.
\<close>

theorem create_expects_201_others_200:
  "(supertest (app self) ''post'' = VerbFunction \<longrightarrow>
      (\<exists>r opts. create supertest self path body options = Inr r
          \<and> req_method r = ''post''
          \<and> (\<forall>res. run_asserts (req_asserts r) res = expect self res opts)
          \<and> get_prop opts ''expectedStatus''
              = (if get_prop (or_empty options) ''expectedStatus'' = JUndefined then JNum 201
                 else get_prop (or_empty options) ''expectedStatus'')
          \<and> (\<forall>k. k \<noteq> ''expectedStatus'' \<longrightarrow> get_prop opts k = get_prop (or_empty options) k)))
   \<and> (supertest (app self) ''get'' = VerbFunction \<longrightarrow>
      (\<exists>r. read supertest self path options = Inr r
          \<and> (\<forall>res. run_asserts (req_asserts r) res = expect self res (or_empty options)))
      \<and> (\<exists>r. retrieve supertest self path options = Inr r
          \<and> (\<forall>res. run_asserts (req_asserts r) res = expect self res (or_empty options))))
   \<and> (or_else (get_prop (or_empty options) ''method'') (updateMethod self) = JStr m
        \<and> m \<noteq> [] \<and> supertest (app self) (toLowerCase m) = VerbFunction \<longrightarrow>
      (\<exists>r. update supertest self path body options = Inr r
          \<and> (\<forall>res. run_asserts (req_asserts r) res = expect self res (or_empty options))))
   \<and> (supertest (app self) ''patch'' = VerbFunction \<longrightarrow>
      (\<exists>r. patch supertest self path body options = Inr r
          \<and> (\<forall>res. run_asserts (req_asserts r) res = expect self res (or_empty options))))
   \<and> (supertest (app self) ''delete'' = VerbFunction \<longrightarrow>
      (\<exists>r. delete supertest self path body options = Inr r
          \<and> (\<forall>res. run_asserts (req_asserts r) res = expect self res (or_empty options)))
      \<and> (\<exists>r. destroy supertest self path body options = Inr r
          \<and> (\<forall>res. run_asserts (req_asserts r) res = expect self res (or_empty options))))"
proof -
  have verb: "or_else (JStr v) (JStr ''GET'') = JStr v" if "v \<noteq> []" for v
    using that by (rule or_else_nonempty)
  have c: "\<exists>r opts. create supertest self path body options = Inr r
             \<and> req_method r = ''post''
             \<and> (\<forall>res. run_asserts (req_asserts r) res = expect self res opts)
             \<and> get_prop opts ''expectedStatus''
                 = (if get_prop (or_empty options) ''expectedStatus'' = JUndefined then JNum 201
                    else get_prop (or_empty options) ''expectedStatus'')
             \<and> (\<forall>k. k \<noteq> ''expectedStatus'' \<longrightarrow> get_prop opts k = get_prop (or_empty options) k)"
    if "supertest (app self) ''post'' = VerbFunction"
  proof -
    let ?o = "defaults Map.empty [options, Some [''expectedStatus'' \<mapsto> JNum 201]]"
    have post: "supertest (app self) (toLowerCase ''POST'') = VerbFunction"
      using that by (simp only: lower_verbs)
    have "\<exists>r. create supertest self path body options = Inr r \<and> req_method r = ''post''
            \<and> req_asserts r = [\<lambda>res. expect self res ?o]"
      unfolding create_def
        test_supported [where supertest = supertest and self = self and m = "''POST''",
          OF verb post, simplified]
      by (simp add: or_empty_simps lower_verbs)
    then obtain r where r: "create supertest self path body options = Inr r"
      "req_method r = ''post''" "req_asserts r = [\<lambda>res. expect self res ?o]"
      by blast
    show ?thesis
      by (intro exI [of _ r] exI [of _ ?o])
         (simp add: r run_single_assert get_prop_create_options del: run_asserts.simps)
  qed
  have r: "\<exists>r. read supertest self path options = Inr r
             \<and> (\<forall>res. run_asserts (req_asserts r) res = expect self res (or_empty options))"
    if "supertest (app self) ''get'' = VerbFunction"
  proof -
    have get: "supertest (app self) (toLowerCase ''GET'') = VerbFunction"
      using that by (simp only: lower_verbs)
    show ?thesis
      unfolding read_def
        test_supported [where supertest = supertest and self = self and m = "''GET''",
          OF verb get, simplified]
      by (simp add: run_single_assert del: run_asserts.simps)
  qed
  have u: "\<exists>r. update supertest self path body options = Inr r
             \<and> (\<forall>res. run_asserts (req_asserts r) res = expect self res (or_empty options))"
    if "or_else (get_prop (or_empty options) ''method'') (updateMethod self) = JStr m
        \<and> m \<noteq> [] \<and> supertest (app self) (toLowerCase m) = VerbFunction"
  proof -
    have um: "or_else (or_else (get_prop (or_empty options) ''method'') (updateMethod self))
                (JStr ''GET'') = JStr m"
      using that by (simp add: or_else_nonempty)
    have ag: "supertest (app self) (toLowerCase m) = VerbFunction"
      using that by simp
    show ?thesis
      unfolding update_def Let_def
        test_supported [where supertest = supertest and self = self, OF um ag]
      by (simp add: run_single_assert or_empty_simps del: run_asserts.simps)
  qed
  have p: "\<exists>r. patch supertest self path body options = Inr r
             \<and> (\<forall>res. run_asserts (req_asserts r) res = expect self res (or_empty options))"
    if "supertest (app self) ''patch'' = VerbFunction"
  proof -
    have patch: "supertest (app self) (toLowerCase ''PATCH'') = VerbFunction"
      using that by (simp only: lower_verbs)
    show ?thesis
      unfolding patch_def
        test_supported [where supertest = supertest and self = self and m = "''PATCH''",
          OF verb patch, simplified]
      by (simp add: run_single_assert del: run_asserts.simps)
  qed
  have d: "\<exists>r. delete supertest self path body options = Inr r
             \<and> (\<forall>res. run_asserts (req_asserts r) res = expect self res (or_empty options))"
    if "supertest (app self) ''delete'' = VerbFunction"
  proof -
    have del: "supertest (app self) (toLowerCase ''DELETE'') = VerbFunction"
      using that by (simp only: lower_verbs)
    show ?thesis
      unfolding delete_def
        test_supported [where supertest = supertest and self = self and m = "''DELETE''",
          OF verb del, simplified]
      by (simp add: run_single_assert del: run_asserts.simps)
  qed
  from c r u p d show ?thesis
    unfolding retrieve_def destroy_def by blast
qed

text \<open>
  With no options: create expects 201, so a 200 response fails and a 201 response
  passes; read expects 200, so a 201 response fails. With \<open>expectedStatus: 200\<close>
  from the caller, create accepts the 200 response.
\<close>

theorem create_expects_201_others_200_witness:
  "http_agent (app plain_instance) ''post'' = VerbFunction
   \<and> http_agent (app plain_instance) ''get'' = VerbFunction
   \<and> (\<exists>r. create http_agent plain_instance ''/test'' foo_bar None = Inr r
          \<and> req_method r = ''post''
          \<and> run_asserts (req_asserts r) ok_json
              = Inl (Error ''Expected HTTP status code 200 to equal 201'')
          \<and> run_asserts (req_asserts r) created = Inr ())
   \<and> (\<exists>r. read http_agent plain_instance ''/test'' None = Inr r
          \<and> run_asserts (req_asserts r) created
              = Inl (Error ''Expected HTTP status code 201 to equal 200''))
   \<and> (\<exists>r. create http_agent plain_instance ''/test'' foo_bar (Some status_200_options) = Inr r
          \<and> run_asserts (req_asserts r) ok_json = Inr ())
   \<and> or_else (get_prop (or_empty None) ''method'') (updateMethod plain_instance) = JStr ''PUT''
   \<and> ''PUT'' \<noteq> [] \<and> http_agent (app plain_instance) (toLowerCase ''PUT'') = VerbFunction
   \<and> (\<exists>r. update http_agent plain_instance ''/test'' foo_bar None = Inr r
          \<and> run_asserts (req_asserts r) created
              = Inl (Error ''Expected HTTP status code 201 to equal 200''))
   \<and> http_agent (app plain_instance) ''patch'' = VerbFunction
   \<and> (\<exists>r. patch http_agent plain_instance ''/test'' foo_bar None = Inr r
          \<and> run_asserts (req_asserts r) created
              = Inl (Error ''Expected HTTP status code 201 to equal 200''))
   \<and> http_agent (app plain_instance) ''delete'' = VerbFunction
   \<and> (\<exists>r. destroy http_agent plain_instance ''/test'' foo_bar None = Inr r
          \<and> run_asserts (req_asserts r) created
              = Inl (Error ''Expected HTTP status code 201 to equal 200''))"
proof -
  have a: "http_agent (app plain_instance) ''post'' = VerbFunction"
    "http_agent (app plain_instance) ''get'' = VerbFunction"
    by (simp_all add: http_agent_def verbs_def)
  have b: "http_agent (app plain_instance) ''patch'' = VerbFunction"
    "http_agent (app plain_instance) ''delete'' = VerbFunction"
    by (simp_all add: http_agent_def verbs_def)
  have u: "or_else (get_prop (or_empty None) ''method'') (updateMethod plain_instance)
             = JStr ''PUT''"
    by (simp add: ctor_eval plain_instance_def status_200_options_def ok_json_def
        created_def)
  have p: "''PUT'' \<noteq> []" by simp
  have ap: "http_agent (app plain_instance) (toLowerCase ''PUT'') = VerbFunction"
    by (simp add: http_agent_def verbs_def lower_verbs)
  have fails: "run_asserts (req_asserts q) created
                 = Inl (Error ''Expected HTTP status code 201 to equal 200'')"
    if "\<And>res. run_asserts (req_asserts q) res = expect plain_instance res (or_empty None)"
    for q :: "unit request"
    unfolding that
    by (subst expect_status_mismatch [where es = "JNum 200"])
       (simp_all add: ctor_eval plain_instance_def status_200_options_def ok_json_def
        created_def Number_toString_def digits.simps)
  have ect: "expectedContentType plain_instance = JUndefined"
    by (simp add: ctor_eval plain_instance_def status_200_options_def ok_json_def
        created_def)
  have n: "get_prop (or_empty None) k = JUndefined" for k
    by (simp add: ctor_eval plain_instance_def status_200_options_def ok_json_def
        created_def)
  have s2: "get_prop (or_empty (Some status_200_options)) ''expectedStatus'' = JNum 200"
    "get_prop (or_empty (Some status_200_options)) ''expectedContentType'' = JUndefined"
    by (simp_all add: ctor_eval plain_instance_def status_200_options_def ok_json_def
        created_def)
  have st: "res_status ok_json = 200" "res_status created = 201"
    by (simp_all add: ctor_eval plain_instance_def status_200_options_def ok_json_def
        created_def)
  note T1 = create_expects_201_others_200
    [where supertest = http_agent and self = plain_instance and options = None
       and path = "''/test''" and body = foo_bar]
  note T2 = create_expects_201_others_200
    [where supertest = http_agent and self = plain_instance
       and options = "Some status_200_options"
       and path = "''/test''" and body = foo_bar]
  from conjunct1 [OF T1] a(1) obtain r opts where
    r: "create http_agent plain_instance ''/test'' foo_bar None = Inr r" "req_method r = ''post''"
      "\<And>res. run_asserts (req_asserts r) res = expect plain_instance res opts"
      "get_prop opts ''expectedStatus'' = JNum 201"
      "get_prop opts ''expectedContentType'' = JUndefined"
    by (auto simp: n)
  have c1a: "run_asserts (req_asserts r) ok_json
              = Inl (Error ''Expected HTTP status code 200 to equal 201'')"
    unfolding r(3)
    by (subst expect_status_mismatch [where es = "JNum 201"])
       (simp_all add: r st Number_toString_def digits.simps)
  have c1b: "run_asserts (req_asserts r) created = Inr ()"
    unfolding r(3)
    by (rule expect_unchecked [where v = JUndefined]) (simp_all add: r st ect)
  from conjunct1 [OF conjunct2 [OF T1]] a(2) obtain r' where
    r': "read http_agent plain_instance ''/test'' None = Inr r'"
      "\<And>res. run_asserts (req_asserts r') res = expect plain_instance res (or_empty None)"
    by auto
  have c2: "run_asserts (req_asserts r') created
              = Inl (Error ''Expected HTTP status code 201 to equal 200'')"
    unfolding r'(2)
    by (subst expect_status_mismatch [where es = "JNum 200"])
       (simp_all add: n st Number_toString_def digits.simps)
  from conjunct1 [OF T2] a(1) obtain r'' opts'' where
    r'': "create http_agent plain_instance ''/test'' foo_bar (Some status_200_options) = Inr r''"
      "\<And>res. run_asserts (req_asserts r'') res = expect plain_instance res opts''"
      "get_prop opts'' ''expectedStatus'' = JNum 200"
      "get_prop opts'' ''expectedContentType'' = JUndefined"
    by (auto simp: s2)
  have c3: "run_asserts (req_asserts r'') ok_json = Inr ()"
    unfolding r''(2)
    by (rule expect_unchecked [where v = JUndefined]) (simp_all add: r'' st ect)
  from r(1,2) c1a c1b have e1: "\<exists>r. create http_agent plain_instance ''/test'' foo_bar None = Inr r
          \<and> req_method r = ''post''
          \<and> run_asserts (req_asserts r) ok_json
              = Inl (Error ''Expected HTTP status code 200 to equal 201'')
          \<and> run_asserts (req_asserts r) created = Inr ()"
    by blast
  from r'(1) c2 have e2: "\<exists>r. read http_agent plain_instance ''/test'' None = Inr r
          \<and> run_asserts (req_asserts r) created
              = Inl (Error ''Expected HTTP status code 201 to equal 200'')"
    by blast
  from r''(1) c3 have e3:
    "\<exists>r. create http_agent plain_instance ''/test'' foo_bar (Some status_200_options) = Inr r
          \<and> run_asserts (req_asserts r) ok_json = Inr ()"
    by blast
  from conjunct1 [OF conjunct2 [OF conjunct2 [OF T1]], of "''PUT''"] u p ap
  have e4: "\<exists>r. update http_agent plain_instance ''/test'' foo_bar None = Inr r
          \<and> run_asserts (req_asserts r) created
              = Inl (Error ''Expected HTTP status code 201 to equal 200'')"
    using fails by blast
  from conjunct1 [OF conjunct2 [OF conjunct2 [OF conjunct2 [OF T1]]]] b(1)
  have e5: "\<exists>r. patch http_agent plain_instance ''/test'' foo_bar None = Inr r
          \<and> run_asserts (req_asserts r) created
              = Inl (Error ''Expected HTTP status code 201 to equal 200'')"
    using fails by blast
  from conjunct2 [OF conjunct2 [OF conjunct2 [OF conjunct2 [OF T1]]]] b(2)
  have e6: "\<exists>r. destroy http_agent plain_instance ''/test'' foo_bar None = Inr r
          \<and> run_asserts (req_asserts r) created
              = Inl (Error ''Expected HTTP status code 201 to equal 200'')"
    using fails by blast
  from a b u p ap e1 e2 e3 e4 e5 e6 show ?thesis by (simp only: simp_thms)
qed

text \<open>
  C9. The instance is constructed from its options. A method given to update in its
  options (a non-empty string) is the verb of the request; when the call gives none
  (\<open>options.method || this.updateMethod\<close> tests truthiness, so an empty string counts
  as none), the \<open>updateMethod\<close> given at construction is; when that was not given
  either, the verb is PUT.
\<close>

theorem update_method_precedence:
  assumes "self = SuperRest a copts"
  shows "(get_prop (or_empty options) ''method'' = JStr m \<and> m \<noteq> []
          \<and> supertest a (toLowerCase m) = VerbFunction \<longrightarrow>
            (\<exists>r. update supertest self path body options = Inr r
                 \<and> req_method r = toLowerCase m))
       \<and> (\<not> truthy (get_prop (or_empty options) ''method'')
          \<and> get_prop (or_empty copts) ''updateMethod'' = JStr u \<and> u \<noteq> []
          \<and> supertest a (toLowerCase u) = VerbFunction \<longrightarrow>
            (\<exists>r. update supertest self path body options = Inr r
                 \<and> req_method r = toLowerCase u))
       \<and> (\<not> truthy (get_prop (or_empty options) ''method'')
          \<and> \<not> truthy (get_prop (or_empty copts) ''updateMethod'')
          \<and> supertest a ''put'' = VerbFunction \<longrightarrow>
            (\<exists>r. update supertest self path body options = Inr r
                 \<and> req_method r = ''put''))"
proof (intro conjI impI)
  assume h: "get_prop (or_empty options) ''method'' = JStr m \<and> m \<noteq> []
          \<and> supertest a (toLowerCase m) = VerbFunction"
  then have v: "or_else (or_else (get_prop (or_empty options) ''method'') (updateMethod self))
                  (JStr ''GET'') = JStr m"
    by (simp add: or_else_def)
  from h assms have ag: "supertest (app self) (toLowerCase m) = VerbFunction"
    by (simp add: SuperRest_sel)
  show "\<exists>r. update supertest self path body options = Inr r \<and> req_method r = toLowerCase m"
    unfolding update_def Let_def
      test_supported [where supertest = supertest and self = self, OF v ag]
    by simp
next
  assume h: "\<not> truthy (get_prop (or_empty options) ''method'')
          \<and> get_prop (or_empty copts) ''updateMethod'' = JStr u \<and> u \<noteq> []
          \<and> supertest a (toLowerCase u) = VerbFunction"
  with assms have v: "or_else (or_else (get_prop (or_empty options) ''method'')
                        (updateMethod self)) (JStr ''GET'') = JStr u"
    by (simp add: or_else_def SuperRest_sel)
  from h assms have ag: "supertest (app self) (toLowerCase u) = VerbFunction"
    by (simp add: SuperRest_sel)
  show "\<exists>r. update supertest self path body options = Inr r \<and> req_method r = toLowerCase u"
    unfolding update_def Let_def
      test_supported [where supertest = supertest and self = self, OF v ag]
    by simp
next
  assume h: "\<not> truthy (get_prop (or_empty options) ''method'')
          \<and> \<not> truthy (get_prop (or_empty copts) ''updateMethod'')
          \<and> supertest a ''put'' = VerbFunction"
  with assms have v: "or_else (or_else (get_prop (or_empty options) ''method'')
                        (updateMethod self)) (JStr ''GET'') = JStr ''PUT''"
    by (simp add: or_else_def SuperRest_sel)
  from h assms have ag: "supertest (app self) (toLowerCase ''PUT'') = VerbFunction"
    by (simp add: SuperRest_sel lower_verbs)
  show "\<exists>r. update supertest self path body options = Inr r \<and> req_method r = ''put''"
    unfolding update_def Let_def
      test_supported [where supertest = supertest and self = self, OF v ag]
    by (simp add: lower_verbs)
qed

text \<open>
  The update tests of the repository: \<open>{method: 'POST'}\<close> on an instance constructed
  with \<open>updateMethod: 'PATCH'\<close> gives POST; no method on that instance gives PATCH;
  no method on an instance constructed without options gives PUT.
\<close>

theorem update_method_precedence_witness:
  "patch_instance = SuperRest () (Some [''updateMethod'' \<mapsto> JStr ''PATCH''])
   \<and> plain_instance = SuperRest () None
   \<and> get_prop (or_empty (Some method_post_options)) ''method'' = JStr ''POST''
   \<and> ''POST'' \<noteq> [] \<and> http_agent () (toLowerCase ''POST'') = VerbFunction
   \<and> (\<exists>r. update http_agent patch_instance ''/test'' foo_bar (Some method_post_options) = Inr r
          \<and> req_method r = ''post'')
   \<and> \<not> truthy (get_prop (or_empty None) ''method'')
   \<and> get_prop (or_empty (Some [''updateMethod'' \<mapsto> JStr ''PATCH''])) ''updateMethod''
       = JStr ''PATCH''
   \<and> ''PATCH'' \<noteq> [] \<and> http_agent () (toLowerCase ''PATCH'') = VerbFunction
   \<and> (\<exists>r. update http_agent patch_instance ''/test'' foo_bar None = Inr r
          \<and> req_method r = ''patch'')
   \<and> \<not> truthy (get_prop (or_empty None) ''updateMethod'')
   \<and> http_agent () ''put'' = VerbFunction
   \<and> (\<exists>r. update http_agent plain_instance ''/test'' foo_bar None = Inr r
          \<and> req_method r = ''put'')"
proof -
  have i1: "patch_instance = SuperRest () (Some [''updateMethod'' \<mapsto> JStr ''PATCH''])"
    by (rule patch_instance_def)
  have i2: "plain_instance = SuperRest () None"
    by (rule plain_instance_def)
  have m: "get_prop (or_empty (Some method_post_options)) ''method'' = JStr ''POST''"
    and n: "\<not> truthy (get_prop (or_empty None) ''method'')"
    and c: "get_prop (or_empty (Some [''updateMethod'' \<mapsto> JStr ''PATCH''])) ''updateMethod''
              = JStr ''PATCH''"
    and d: "\<not> truthy (get_prop (or_empty None) ''updateMethod'')"
    by (simp_all add: ctor_eval method_post_options_def)
  have ne: "''POST'' \<noteq> []" "''PATCH'' \<noteq> []" by simp_all
  have ag: "http_agent () (toLowerCase ''POST'') = VerbFunction"
    "http_agent () (toLowerCase ''PATCH'') = VerbFunction"
    "http_agent () ''put'' = VerbFunction"
    by (simp_all add: http_agent_def verbs_def lower_verbs)
  note T1 = update_method_precedence [where supertest = http_agent, OF i1]
  note T2 = update_method_precedence [where supertest = http_agent, OF i2]
  have c1: "\<exists>r. update http_agent patch_instance ''/test'' foo_bar (Some method_post_options)
               = Inr r \<and> req_method r = ''post''"
    using conjunct1 [OF T1, of "Some method_post_options" "''POST''" "''/test''" foo_bar]
      m ne ag by (simp add: lower_verbs)
  have c2: "\<exists>r. update http_agent patch_instance ''/test'' foo_bar None = Inr r
               \<and> req_method r = ''patch''"
    using conjunct1 [OF conjunct2 [OF T1], of None "''PATCH''" "''/test''" foo_bar]
      n c ne ag by (simp add: lower_verbs)
  have c3: "\<exists>r. update http_agent plain_instance ''/test'' foo_bar None = Inr r
               \<and> req_method r = ''put''"
    using conjunct2 [OF conjunct2 [OF T2], of None "''/test''" foo_bar]
      n d ag by simp
  from i1 i2 m ne ag c1 n c c2 d c3 show ?thesis by (simp only: simp_thms)
qed

end
